theory Spec2Isabelle
  imports Complex_Main
begin

section \<open>JavaScript values\<close>

text \<open>
  The tool receives data from two untyped sources: the block data handed over by the host
  editor and the body of the upload response. Both are JSON, so a value is one of the
  JSON shapes plus \<open>undefined\<close> (what reading an absent property yields). Arrays are left
  out of the value type: no operation of the tool indexes one.

  A number is a double. A finite double is represented by the real it denotes (rounding
  of a quotient to the nearest double is not modelled, and the two zeros are one value);
  \<open>NaN\<close> and the two infinities are values of their own.
\<close>

datatype jsnum = NaN | PosInf | NegInf | Finite real

datatype jsval =
    JUndefined
  | JNull
  | JBool bool
  | JNum jsnum
  | JStr string
  | JObj "(string \<times> jsval) list"

datatype js_error = TypeError | Error string

text \<open>ToBoolean: \<open>undefined\<close>, \<open>null\<close>, \<open>false\<close>, \<open>0\<close>, \<open>NaN\<close> and \<open>''\<close> are falsy,
  every object (the empty one too) is truthy.\<close>

fun num_truthy :: "jsnum \<Rightarrow> bool" where
  "num_truthy NaN = False"
| "num_truthy PosInf = True"
| "num_truthy NegInf = True"
| "num_truthy (Finite x) = (x \<noteq> 0)"

fun truthy :: "jsval \<Rightarrow> bool" where
  "truthy JUndefined = False"
| "truthy JNull = False"
| "truthy (JBool b) = b"
| "truthy (JNum n) = num_truthy n"
| "truthy (JStr s) = (s \<noteq> [])"
| "truthy (JObj kvs) = True"

text \<open>Reading an own property of an object literal: \<open>undefined\<close> when the key is absent.\<close>

definition obj_get :: "(string \<times> jsval) list \<Rightarrow> string \<Rightarrow> jsval" where
  "obj_get kvs k = (case map_of kvs k of None \<Rightarrow> JUndefined | Some v \<Rightarrow> v)"

text \<open>The member access \<open>v.k\<close>: a TypeError on \<open>undefined\<close> and \<open>null\<close>, the property of an
  object, and \<open>undefined\<close> on a primitive (the tool reads \<open>url\<close> only, which no primitive's
  prototype defines).\<close>

fun get_prop :: "jsval \<Rightarrow> string \<Rightarrow> js_error + jsval" where
  "get_prop JUndefined k = Inl TypeError"
| "get_prop JNull k = Inl TypeError"
| "get_prop (JObj kvs) k = Inr (obj_get kvs k)"
| "get_prop (JBool b) k = Inr JUndefined"
| "get_prop (JNum n) k = Inr JUndefined"
| "get_prop (JStr s) k = Inr JUndefined"

text \<open>The quotient \<open>w / h\<close> of two non-negative integers, as IEEE 754 division gives it.\<close>

definition js_divide :: "nat \<Rightarrow> nat \<Rightarrow> jsnum" where
  "js_divide w h =
     (if h = 0 then (if w = 0 then NaN else PosInf) else Finite (real w / real h))"

fun positive_number :: "jsnum \<Rightarrow> bool" where
  "positive_number NaN = False"
| "positive_number PosInf = True"
| "positive_number NegInf = False"
| "positive_number (Finite x) = (0 < x)"

section \<open>The presentation layer (ui.ts)\<close>

datatype UiState = Empty | Uploading | Filled

fun UiState_value :: "UiState \<Rightarrow> string" where
  "UiState_value Empty = ''empty''"
| "UiState_value Uploading = ''uploading''"
| "UiState_value Filled = ''filled''"

text \<open>
  The host API as far as the model reads it: the translation function and the block
  class of \<open>api.styles\<close>. The notifier is part of the controller's state below.

  The record also carries the one behaviour of the browser that the results of the tool
  depend on: \<open>dom_reserialise markup\<close> is what \<open>innerHTML\<close> reads back after a non-empty
  \<open>markup\<close> was assigned to it. The setter parses the markup into nodes and the getter
  serialises the nodes again, so the two strings differ in general (a bare \<open>&\<close> comes
  back as \<open>&amp;\<close>, an unclosed tag comes back closed). The function is a parameter:
  nothing is assumed about it.
\<close>

record API =
  i18n_t :: "string \<Rightarrow> string"
  styles_block :: string
  dom_reserialise :: "string \<Rightarrow> string"

datatype caption_feature = CaptionUnset | CaptionBool bool | CaptionOptional

record VideoConfig =
  captionPlaceholder :: string
  features_caption :: caption_feature

datatype tag = VIDEO | IMG

text \<open>
  A media element. \<open>natural_width\<close> and \<open>natural_height\<close> are the dimensions the browser
  has decoded so far: both are 0 on a fresh element (for a video element \<open>videoWidth\<close>
  and \<open>videoHeight\<close> return 0 while its ready state is "have nothing").
  \<open>listeners\<close> holds the event names under which the tool has registered its
  "media is ready" callback.
\<close>

record element =
  tagName :: tag
  classList :: "string list"
  attributes :: "(string \<times> jsval) list"
  listeners :: "string list"
  natural_width :: nat
  natural_height :: nat

text \<open>
  The nodes of the widget that the operations below read or write: the class list of the
  wrapper, the media elements appended to the video container (in document order), the
  reference \<open>nodes.videoEl\<close> (an index into that list, \<open>None\<close> for \<open>undefined\<close>) and the
  caption node. \<open>caption_innerHTML\<close> is what reading \<open>nodes.caption.innerHTML\<close> returns.
  The select-file button and the preloader node carry no state of their own.
\<close>

record Ui =
  ui_api :: API
  ui_config :: VideoConfig
  readOnly :: bool
  wrapper :: "string list"
  videoContainer :: "element list"
  videoEl :: "nat option"
  caption_innerHTML :: string
  caption_contentEditable :: bool
  caption_placeholder :: string

text \<open>Modelled from the spec: the DOM construction utility \<open>make\<close> (utils/dom.ts) is not part
  of the sources; it creates an element of the given tag, with the given class and with the
  given attributes set on it.\<close>

definition make_dom :: "tag \<Rightarrow> string \<Rightarrow> (string \<times> jsval) list \<Rightarrow> element" where
  "make_dom t cls attrs =
     \<lparr>tagName = t, classList = [cls], attributes = attrs, listeners = [],
      natural_width = 0, natural_height = 0\<rparr>"

definition CSS_wrapper :: string where "CSS_wrapper = ''video-tool''"
definition CSS_videoEl :: string where "CSS_videoEl = ''video-tool__video-picture''"
definition CSS_caption :: string where "CSS_caption = ''video-tool__caption''"

text \<open>\<open>classList.add\<close> and \<open>classList.toggle(token, force)\<close> on an ordered token set.\<close>

definition classList_add :: "string \<Rightarrow> string list \<Rightarrow> string list" where
  "classList_add token cl = (if token \<in> set cl then cl else cl @ [token])"

definition classList_toggle :: "string \<Rightarrow> bool \<Rightarrow> string list \<Rightarrow> string list" where
  "classList_toggle token force cl =
     (if force then classList_add token cl else removeAll token cl)"

definition status_class :: "UiState \<Rightarrow> string" where
  "status_class state = CSS_wrapper @ ''--'' @ UiState_value state"

definition tune_class :: "string \<Rightarrow> string" where
  "tune_class tuneName = CSS_wrapper @ ''--'' @ tuneName"

definition Ui_constructor :: "API \<Rightarrow> VideoConfig \<Rightarrow> bool \<Rightarrow> Ui" where
  "Ui_constructor api config ro =
     \<lparr>ui_api = api, ui_config = config, readOnly = ro,
      wrapper = classList_add CSS_wrapper (classList_add (styles_block api) []),
      videoContainer = [],
      videoEl = None,
      caption_innerHTML = [],
      caption_contentEditable = (\<not> ro),
      caption_placeholder = captionPlaceholder config\<rparr>"

definition applyTune :: "string \<Rightarrow> bool \<Rightarrow> Ui \<Rightarrow> Ui" where
  "applyTune tuneName status u =
     u\<lparr>wrapper := classList_toggle (tune_class tuneName) status (wrapper u)\<rparr>"

text \<open>The loop of \<open>toggleStatus\<close> runs over the keys of the enum in declaration order.\<close>

definition toggleStatus :: "UiState \<Rightarrow> Ui \<Rightarrow> Ui" where
  "toggleStatus status u =
     fold (\<lambda>state v. v\<lparr>wrapper := classList_toggle (status_class state) (state = status) (wrapper v)\<rparr>)
       [Empty, Uploading, Filled] u"

definition Ui_render :: "Ui \<Rightarrow> Ui" where
  "Ui_render u = toggleStatus Empty u"

definition showPreloader :: "Ui \<Rightarrow> Ui" where
  "showPreloader u = toggleStatus Uploading u"

definition hidePreloader :: "Ui \<Rightarrow> Ui" where
  "hidePreloader u = toggleStatus Empty u"

fun starts_with :: "string \<Rightarrow> string \<Rightarrow> bool" where
  "starts_with [] s = True"
| "starts_with (p # ps) [] = False"
| "starts_with (p # ps) (c # cs) = (p = c \<and> starts_with ps cs)"

definition ends_with :: "string \<Rightarrow> string \<Rightarrow> bool" where
  "ends_with suf s = starts_with (rev suf) (rev s)"

text \<open>
  \<open>/\.mp4$/.test(url)\<close>: the argument is converted to a string first. The string of a
  number, of a boolean, of \<open>null\<close>, of \<open>undefined\<close> and of a plain object
  (\<open>[object Object]\<close>) never ends in \<open>.mp4\<close>.
\<close>

fun test_mp4 :: "jsval \<Rightarrow> bool" where
  "test_mp4 (JStr s) = ends_with ''.mp4'' s"
| "test_mp4 v = False"

definition fillVideo :: "jsval \<Rightarrow> Ui \<Rightarrow> Ui" where
  "fillVideo url u =
     (let t = (if test_mp4 url then VIDEO else IMG);
          attrs = [(''src'', url)];
          eventName = ''load'';
          attrs = (if t = VIDEO
                   then attrs @ [(''playsinline'', JBool True), (''controls'', JBool True)]
                   else attrs);
          eventName = (if t = VIDEO then ''loadeddata'' else eventName);
          el = make_dom t CSS_videoEl attrs;
          el = el\<lparr>listeners := listeners el @ [eventName]\<rparr>
      in u\<lparr>videoEl := Some (length (videoContainer u)),
            videoContainer := videoContainer u @ [el]\<rparr>)"

text \<open>
  The assignment \<open>node.innerHTML = markup\<close>, as the string that \<open>node.innerHTML\<close> reads
  back afterwards: the empty markup leaves the node without children, which serialise to
  the empty string; any other markup comes back re-serialised by the browser.
\<close>

definition innerHTML_set :: "API \<Rightarrow> string \<Rightarrow> string" where
  "innerHTML_set a markup = (if markup = [] then [] else dom_reserialise a markup)"

definition fillCaption :: "string \<Rightarrow> Ui \<Rightarrow> Ui" where
  "fillCaption text u = u\<lparr>caption_innerHTML := innerHTML_set (ui_api u) text\<rparr>"

text \<open>
  The browser dispatches the event \<open>ev\<close> on the \<open>i\<close>-th media element: the callback
  registered by \<open>fillVideo\<close> runs if it was registered under that name.
\<close>

definition dispatchEvent :: "nat \<Rightarrow> string \<Rightarrow> Ui \<Rightarrow> Ui" where
  "dispatchEvent i ev u =
     (if i < length (videoContainer u) \<and> ev \<in> set (listeners (videoContainer u ! i))
      then toggleStatus Filled u else u)"

text \<open>The status values whose class is on the wrapper.\<close>

definition active_statuses :: "Ui \<Rightarrow> UiState list" where
  "active_statuses u = filter (\<lambda>state. status_class state \<in> set (wrapper u)) [Empty, Uploading, Filled]"

section \<open>The block controller (index.ts)\<close>

record VideoToolData =
  caption :: string
  aspectRatio :: jsnum
  "file" :: jsval

text \<open>
  The block data as the host hands it to the constructor: a new block comes with an
  empty object, so every field may be absent (\<open>JUndefined\<close>, \<open>None\<close>).
\<close>

record SavedData =
  saved_file :: jsval
  saved_caption :: "string option"
  saved_aspectRatio :: "jsnum option"

text \<open>The part of the user's configuration that the controller and the presentation
  layer read; the rest configures the uploader.\<close>

record UserConfig =
  user_captionPlaceholder :: "string option"
  user_features_caption :: caption_feature

record notification =
  message :: string
  style :: string

text \<open>
  The diagnostic that \<open>uploadingFailed\<close> writes to the console: either the uploader's
  error text, or the text \<open>'incorrect response: ' + JSON.stringify(response)\<close>, kept
  as the response it is printed from.
\<close>

datatype errorText = UploaderError string | IncorrectResponse "(string \<times> jsval) list"

text \<open>
  The state of the controller. \<open>data\<close> is the private field \<open>_data\<close>, which the getter
  \<open>data\<close> returns; \<open>notifier\<close> collects the notifications shown through
  \<open>api.notifier.show\<close> and \<open>console\<close> the diagnostics logged, in order.
\<close>

record VideoTool =
  api :: API
  config :: VideoConfig
  ui :: Ui
  data :: VideoToolData
  isCaptionEnabled :: "bool option"
  notifier :: "notification list"
  console :: "errorText list"

text \<open>
  The expression \<open>file && file.url\<close>: the member access is evaluated on a truthy value
  only, where it cannot throw (\<open>and_url_get_prop\<close> below).
\<close>

definition and_url :: "jsval \<Rightarrow> jsval" where
  "and_url f =
     (if truthy f then (case f of JObj kvs \<Rightarrow> obj_get kvs ''url'' | _ \<Rightarrow> JUndefined) else f)"

text \<open>The setter \<open>video\<close>.\<close>

definition set_video :: "jsval \<Rightarrow> VideoTool \<Rightarrow> VideoTool" where
  "set_video f t =
     (let t1 = t\<lparr>data := (data t)\<lparr>file := (if truthy f then f else JObj [(''url'', JStr [])])\<rparr>\<rparr>
      in if truthy (and_url f) then t1\<lparr>ui := fillVideo (and_url f) (ui t1)\<rparr> else t1)"

text \<open>The setter \<open>data\<close>.\<close>

definition set_data :: "SavedData \<Rightarrow> VideoTool \<Rightarrow> VideoTool" where
  "set_data d t =
     (let t1 = set_video (saved_file d) t;
          c = (case saved_caption d of None \<Rightarrow> [] | Some s \<Rightarrow> s);
          t2 = t1\<lparr>data := (data t1)\<lparr>caption := c\<rparr>\<rparr>;
          t3 = t2\<lparr>ui := fillCaption (caption (data t2)) (ui t2)\<rparr>;
          r = (case saved_aspectRatio d of None \<Rightarrow> Finite 1
               | Some n \<Rightarrow> if num_truthy n then n else Finite 1);
          t4 = t3\<lparr>data := (data t3)\<lparr>aspectRatio := r\<rparr>\<rparr>
      in if features_caption (config t4) = CaptionBool True
         then t4\<lparr>ui := applyTune ''caption'' (c \<noteq> []) (ui t4)\<rparr>
         else t4)"

definition VideoTool_constructor :: "SavedData \<Rightarrow> UserConfig \<Rightarrow> API \<Rightarrow> bool \<Rightarrow> VideoTool" where
  "VideoTool_constructor d cfg a ro =
     (let conf = \<lparr>captionPlaceholder =
                    i18n_t a (case user_captionPlaceholder cfg of None \<Rightarrow> ''Caption'' | Some p \<Rightarrow> p),
                  features_caption = user_features_caption cfg\<rparr>;
          t = \<lparr>api = a, config = conf,
               ui = Ui_constructor a conf ro,
               data = \<lparr>caption = [], aspectRatio = Finite 1, file = JObj [(''url'', JStr [])]\<rparr>,
               isCaptionEnabled = None,
               notifier = [],
               console = []\<rparr>
      in set_data d t)"

definition render :: "VideoTool \<Rightarrow> VideoTool" where
  "render t =
     (let fc = features_caption (config t);
          t1 = (if fc = CaptionBool True \<or> fc = CaptionUnset
                   \<or> (fc = CaptionOptional \<and> caption (data t) \<noteq> [])
                then t\<lparr>isCaptionEnabled := Some True, ui := applyTune ''caption'' True (ui t)\<rparr>
                else t)
      in t1\<lparr>ui := Ui_render (ui t1)\<rparr>)"

text \<open>\<open>validate\<close>: the member access \<open>savedData.file.url\<close> throws when \<open>file\<close> is
  \<open>undefined\<close> or \<open>null\<close>.\<close>

definition validate :: "VideoToolData \<Rightarrow> js_error + bool" where
  "validate savedData =
     (case get_prop (file savedData) ''url'' of
        Inl e \<Rightarrow> Inl e
      | Inr v \<Rightarrow> Inr (truthy v))"

text \<open>
  The reads \<open>nodes.videoEl?.videoWidth\<close> and \<open>nodes.videoEl?.videoHeight\<close>: \<open>undefined\<close>
  when there is no element, and when the element is an image (an image element has no
  such property).
\<close>

definition videoEl_node :: "Ui \<Rightarrow> element option" where
  "videoEl_node u =
     (case videoEl u of
        None \<Rightarrow> None
      | Some i \<Rightarrow> if i < length (videoContainer u) then Some (videoContainer u ! i) else None)"

definition videoWidth :: "element option \<Rightarrow> nat option" where
  "videoWidth e =
     (case e of None \<Rightarrow> None
      | Some el \<Rightarrow> if tagName el = VIDEO then Some (natural_width el) else None)"

definition videoHeight :: "element option \<Rightarrow> nat option" where
  "videoHeight e =
     (case e of None \<Rightarrow> None
      | Some el \<Rightarrow> if tagName el = VIDEO then Some (natural_height el) else None)"

text \<open>The operator \<open>??\<close> with the default 1.\<close>

definition or_one :: "nat option \<Rightarrow> nat" where
  "or_one v = (case v of None \<Rightarrow> 1 | Some n \<Rightarrow> n)"

definition save :: "VideoTool \<Rightarrow> VideoToolData \<times> VideoTool" where
  "save t =
     (let t1 = t\<lparr>data := (data t)\<lparr>caption := caption_innerHTML (ui t)\<rparr>\<rparr>;
          r = js_divide (or_one (videoWidth (videoEl_node (ui t1))))
                        (or_one (videoHeight (videoEl_node (ui t1))));
          t2 = t1\<lparr>data := (data t1)\<lparr>aspectRatio := r\<rparr>\<rparr>
      in (data t2, t2))"

text \<open>The message is \<open>Couldn't upload video\<close>, with U+2019 as the apostrophe (in UTF-8).\<close>

definition upload_failed_message :: string where
  "upload_failed_message = ''Couldn'' @ [CHR 0xE2, CHR 0x80, CHR 0x99] @ ''t upload video''"

definition uploadingFailed :: "errorText \<Rightarrow> VideoTool \<Rightarrow> VideoTool" where
  "uploadingFailed txt t =
     (let t1 = t\<lparr>console := console t @ [txt]\<rparr>;
          t2 = t1\<lparr>notifier := notifier t1 @
                  [\<lparr>message = i18n_t (api t1) upload_failed_message, style = ''error''\<rparr>]\<rparr>
      in t2\<lparr>ui := hidePreloader (ui t2)\<rparr>)"

definition onUpload :: "(string \<times> jsval) list \<Rightarrow> VideoTool \<Rightarrow> VideoTool" where
  "onUpload response t =
     (if truthy (obj_get response ''success'') \<and> truthy (obj_get response ''file'')
      then set_video (obj_get response ''file'') t
      else uploadingFailed (IncorrectResponse response) t)"

definition tuneToggled :: "string \<Rightarrow> bool \<Rightarrow> VideoTool \<Rightarrow> js_error + VideoTool" where
  "tuneToggled tuneName state t =
     (if tuneName = ''caption''
      then (let t1 = t\<lparr>ui := applyTune tuneName state (ui t)\<rparr>
            in if state = False
               then Inr (t1\<lparr>data := (data t1)\<lparr>caption := []\<rparr>, ui := fillCaption [] (ui t1)\<rparr>)
               else Inr t1)
      else Inl (Error (''There is no tune with name '' @ tuneName @ '' in Video Tool'')))"

text \<open>The \<open>onActivate\<close> callback of a tune that has no \<open>action\<close> of its own.\<close>

definition isActive :: "string \<Rightarrow> VideoTool \<Rightarrow> bool" where
  "isActive tuneName t =
     (if tuneName = ''caption''
      then (case isCaptionEnabled t of None \<Rightarrow> False | Some b \<Rightarrow> b)
      else False)"

definition onActivate :: "string \<Rightarrow> VideoTool \<Rightarrow> js_error + VideoTool" where
  "onActivate tuneName t =
     (let newState = \<not> isActive tuneName t;
          t1 = (if tuneName = ''caption''
                then t\<lparr>isCaptionEnabled :=
                        Some (\<not> (case isCaptionEnabled t of None \<Rightarrow> False | Some b \<Rightarrow> b))\<rparr>
                else t);
          newState = (if tuneName = ''caption''
                      then (case isCaptionEnabled t1 of None \<Rightarrow> False | Some b \<Rightarrow> b)
                      else newState)
      in tuneToggled tuneName newState t1)"

text \<open>\<open>uploadUrl\<close> shows the preloader and hands the url over to the uploader, which answers
  later through \<open>onUpload\<close> or \<open>uploadingFailed\<close>; the url has no other effect on the
  controller.\<close>

definition uploadUrl :: "string \<Rightarrow> VideoTool \<Rightarrow> VideoTool" where
  "uploadUrl url t = t\<lparr>ui := showPreloader (ui t)\<rparr>"

section \<open>The environment\<close>

text \<open>
  The browser finishes loading the \<open>i\<close>-th media element: the natural dimensions become
  \<open>w\<close> and \<open>h\<close>, then a video element gets \<open>loadeddata\<close> and an image element \<open>load\<close>.
\<close>

definition media_ready :: "nat \<Rightarrow> nat \<Rightarrow> nat \<Rightarrow> Ui \<Rightarrow> Ui" where
  "media_ready i w h u =
     (if i < length (videoContainer u)
      then (let el = videoContainer u ! i;
                u1 = u\<lparr>videoContainer :=
                        (videoContainer u)[i := el\<lparr>natural_width := w, natural_height := h\<rparr>]\<rparr>
            in dispatchEvent i (if tagName el = VIDEO then ''loadeddata'' else ''load'') u1)
      else u)"

section \<open>Runs of the presentation layer\<close>

text \<open>
  What can happen to the presentation layer during the widget's lifetime: the calls the
  controller makes, and the events of the browser.
\<close>

datatype ui_op =
    Render
  | ShowPreloader
  | HidePreloader
  | FillVideo jsval
  | FillCaption string
  | ApplyTune string bool
  | DispatchEvent nat string
  | MediaReady nat nat nat

fun ui_step :: "ui_op \<Rightarrow> Ui \<Rightarrow> Ui" where
  "ui_step Render u = Ui_render u"
| "ui_step ShowPreloader u = showPreloader u"
| "ui_step HidePreloader u = hidePreloader u"
| "ui_step (FillVideo url) u = fillVideo url u"
| "ui_step (FillCaption text) u = fillCaption text u"
| "ui_step (ApplyTune tuneName status) u = applyTune tuneName status u"
| "ui_step (DispatchEvent i ev) u = dispatchEvent i ev u"
| "ui_step (MediaReady i w h) u = media_ready i w h u"

definition status_names :: "string list" where
  "status_names = map UiState_value [Empty, Uploading, Filled]"

text \<open>A tune named like a status would share its class; the controller applies the tune
  \<open>caption\<close> only.\<close>

fun names_status :: "ui_op \<Rightarrow> bool" where
  "names_status (ApplyTune tuneName status) = (tuneName \<in> set status_names)"
| "names_status op = False"

fun sets_status :: "ui_op \<Rightarrow> bool" where
  "sets_status Render = True"
| "sets_status ShowPreloader = True"
| "sets_status HidePreloader = True"
| "sets_status op = False"

text \<open>
  A media event fires when the element it is dispatched on exists and listens to it.
  Every element that \<open>fillVideo\<close> has appended stays in the container with its listener,
  so the element need not be the current one.
\<close>

fun fires :: "ui_op \<Rightarrow> Ui \<Rightarrow> bool" where
  "fires (DispatchEvent i ev) u =
     (i < length (videoContainer u) \<and> ev \<in> set (listeners (videoContainer u ! i)))"
| "fires (MediaReady i w h) u =
     (i < length (videoContainer u)
      \<and> (if tagName (videoContainer u ! i) = VIDEO then ''loadeddata'' else ''load'')
           \<in> set (listeners (videoContainer u ! i)))"
| "fires op u = False"

text \<open>A run in which no media event fires.\<close>

fun no_fire :: "ui_op list \<Rightarrow> Ui \<Rightarrow> bool" where
  "no_fire [] u = True"
| "no_fire (op # ops) u = (\<not> fires op u \<and> no_fire ops (ui_step op u))"

text \<open>A run without a step that sets the status: no call of \<open>render\<close>, \<open>showPreloader\<close> or
  \<open>hidePreloader\<close>, and no media event that fires.\<close>

fun quiet :: "ui_op list \<Rightarrow> Ui \<Rightarrow> bool" where
  "quiet [] u = True"
| "quiet (op # ops) u = (\<not> sets_status op \<and> \<not> fires op u \<and> quiet ops (ui_step op u))"

section \<open>Example inputs\<close>

text \<open>
  The round trip of a caption that is plain text, where no \<open><\<close> opens a tag and no \<open>&\<close>
  opens a character reference: the browser keeps it as one text node and serialises it
  with \<open>&\<close>, \<open><\<close> and \<open>>\<close> escaped. The examples use captions of this kind only.
\<close>

definition escape_text :: "string \<Rightarrow> string" where
  "escape_text s =
     concat (map (\<lambda>c. if c = CHR ''&'' then ''&amp;''
                      else if c = CHR ''<'' then ''&lt;''
                      else if c = CHR ''>'' then ''&gt;''
                      else [c]) s)"

definition example_api :: API where
  "example_api = \<lparr>i18n_t = id, styles_block = ''cdx-block'', dom_reserialise = escape_text\<rparr>"

definition example_config :: UserConfig where
  "example_config = \<lparr>user_captionPlaceholder = None, user_features_caption = CaptionUnset\<rparr>"

text \<open>The data of a block that has just been inserted: \<open>{}\<close>.\<close>

definition new_block :: SavedData where
  "new_block = \<lparr>saved_file = JUndefined, saved_caption = None, saved_aspectRatio = None\<rparr>"

definition fresh_tool :: VideoTool where
  "fresh_tool = render (VideoTool_constructor new_block example_config example_api False)"

text \<open>The user has pasted a URL: the preloader is shown and the answer is awaited.\<close>

definition uploading_tool :: VideoTool where
  "uploading_tool = uploadUrl ''https://x/a.mp4'' fresh_tool"

text \<open>
  A block saved with an image is opened and rendered, then the user pastes the URL of a
  video and the upload succeeds: the container now holds the image element (index 0) and
  the video element (index 1, the current one), and neither has loaded yet.
\<close>

definition replacing_tool :: VideoTool where
  "replacing_tool =
     onUpload [(''success'', JNum (Finite 1)), (''file'', JObj [(''url'', JStr ''https://x/b.mp4'')])]
       (uploadUrl ''https://x/b.mp4''
         (render (VideoTool_constructor
           \<lparr>saved_file = JObj [(''url'', JStr ''https://x/a.png'')], saved_caption = None,
            saved_aspectRatio = None\<rparr> example_config example_api False)))"

section \<open>Properties of the presentation layer\<close>

lemma set_classList_add: "set (classList_add tok cl) = insert tok (set cl)"
  by (auto simp: classList_add_def)

lemma set_classList_toggle:
  "set (classList_toggle tok force cl) = (if force then insert tok (set cl) else set cl - {tok})"
  by (simp add: classList_toggle_def set_classList_add)

lemma status_class_inj: "status_class a = status_class b \<longleftrightarrow> a = b"
  by (cases a; cases b) (simp_all add: status_class_def)

lemma wrapper_toggleStatus:
  "wrapper (toggleStatus st u) =
     classList_toggle (status_class Filled) (Filled = st)
       (classList_toggle (status_class Uploading) (Uploading = st)
         (classList_toggle (status_class Empty) (Empty = st) (wrapper u)))"
  by (simp add: toggleStatus_def)

lemma toggleStatus_frame:
  "videoContainer (toggleStatus st u) = videoContainer u"
  "videoEl (toggleStatus st u) = videoEl u"
  "caption_innerHTML (toggleStatus st u) = caption_innerHTML u"
  by (simp_all add: toggleStatus_def)

lemma status_in_toggleStatus:
  "status_class s \<in> set (wrapper (toggleStatus st u)) \<longleftrightarrow> s = st"
  by (cases s; cases st) (simp_all add: wrapper_toggleStatus set_classList_toggle status_class_inj)

lemma active_statuses_toggleStatus: "active_statuses (toggleStatus st u) = [st]"
  by (cases st) (simp_all add: active_statuses_def status_in_toggleStatus)

lemma wrapper_fillVideo: "wrapper (fillVideo url u) = wrapper u"
  by (simp add: fillVideo_def Let_def)

lemma active_statuses_cong:
  "(\<And>s. status_class s \<in> set (wrapper u) \<longleftrightarrow> status_class s \<in> set (wrapper v)) \<Longrightarrow>
   active_statuses u = active_statuses v"
  by (simp add: active_statuses_def)

lemma tune_class_eq_status: "tune_class n = status_class s \<longleftrightarrow> n = UiState_value s"
  by (simp add: tune_class_def status_class_def)

lemma active_statuses_applyTune:
  assumes "tuneName \<notin> set status_names"
  shows "active_statuses (applyTune tuneName b u) = active_statuses u"
proof (rule active_statuses_cong)
  fix s
  have "tuneName \<noteq> UiState_value s"
    using assms by (cases s) (auto simp: status_names_def)
  then have "tune_class tuneName \<noteq> status_class s"
    by (simp add: tune_class_eq_status)
  then show "status_class s \<in> set (wrapper (applyTune tuneName b u)) \<longleftrightarrow> status_class s \<in> set (wrapper u)"
    by (auto simp: applyTune_def set_classList_toggle)
qed

lemma active_statuses_dispatchEvent:
  "active_statuses (dispatchEvent i ev u) =
     (if i < length (videoContainer u) \<and> ev \<in> set (listeners (videoContainer u ! i))
      then [Filled] else active_statuses u)"
  by (simp add: dispatchEvent_def active_statuses_toggleStatus)

lemma active_statuses_media_ready:
  "active_statuses (media_ready i w h u) =
     (if fires (MediaReady i w h) u then [Filled] else active_statuses u)"
  by (simp add: media_ready_def Let_def active_statuses_dispatchEvent) (simp add: active_statuses_def)

lemma active_statuses_fillVideo: "active_statuses (fillVideo url u) = active_statuses u"
  by (simp add: active_statuses_def wrapper_fillVideo)

lemma active_statuses_fillCaption: "active_statuses (fillCaption text u) = active_statuses u"
  by (simp add: active_statuses_def fillCaption_def)

lemma fires_step: "fires op u \<Longrightarrow> active_statuses (ui_step op u) = [Filled]"
  by (cases op) (simp_all add: active_statuses_dispatchEvent active_statuses_media_ready)

lemma sets_status_step: "sets_status op \<Longrightarrow> length (active_statuses (ui_step op u)) = 1"
  by (cases op)
    (simp_all add: Ui_render_def showPreloader_def hidePreloader_def active_statuses_toggleStatus)

lemma quiet_step:
  assumes "\<not> sets_status op" and "\<not> fires op u" and "\<not> names_status op"
  shows "active_statuses (ui_step op u) = active_statuses u"
proof (cases op)
  case (ApplyTune n b)
  with assms show ?thesis by (simp add: active_statuses_applyTune)
next
  case (MediaReady i w h)
  with assms(2) have "\<not> fires (MediaReady i w h) u" by simp
  with MediaReady show ?thesis by (simp only: ui_step.simps active_statuses_media_ready if_False)
next
  case (DispatchEvent i ev)
  with assms show ?thesis by (auto simp: active_statuses_dispatchEvent)
next
  case (FillVideo url)
  with assms show ?thesis by (simp add: active_statuses_fillVideo)
next
  case (FillCaption capt)
  with assms show ?thesis by (simp add: active_statuses_fillCaption)
qed (use assms in simp_all)

lemma one_status_step:
  assumes "\<not> names_status op" and "length (active_statuses u) = 1"
  shows "length (active_statuses (ui_step op u)) = 1"
proof (cases "sets_status op \<or> fires op u")
  case True
  then show ?thesis by (auto simp: sets_status_step fires_step)
next
  case False
  with assms show ?thesis by (simp add: quiet_step)
qed

lemma one_status_run:
  "list_all (\<lambda>op. \<not> names_status op) ops \<Longrightarrow> length (active_statuses u) = 1 \<Longrightarrow>
   length (active_statuses (fold ui_step ops u)) = 1"
  by (induction ops arbitrary: u) (simp_all add: one_status_step)

lemma status_count_run:
  "list_all (\<lambda>op. \<not> names_status op) ops \<Longrightarrow>
   (if quiet ops u then active_statuses (fold ui_step ops u) = active_statuses u
    else length (active_statuses (fold ui_step ops u)) = 1)"
proof (induction ops arbitrary: u)
  case Nil
  then show ?case by simp
next
  case (Cons op ops)
  then have nm: "\<not> names_status op" and rest: "list_all (\<lambda>op. \<not> names_status op) ops"
    by simp_all
  show ?case
  proof (cases "sets_status op \<or> fires op u")
    case True
    then have "length (active_statuses (ui_step op u)) = 1"
      by (auto simp: sets_status_step fires_step)
    with rest have "length (active_statuses (fold ui_step ops (ui_step op u))) = 1"
      by (rule one_status_run)
    with True show ?thesis by auto
  next
    case False
    then have "active_statuses (ui_step op u) = active_statuses u"
      using nm by (simp add: quiet_step)
    with Cons.IH [OF rest, of "ui_step op u"] False show ?thesis by simp
  qed
qed

lemma active_statuses_constructor:
  assumes "styles_block a \<notin> set (map status_class [Empty, Uploading, Filled])"
  shows "active_statuses (Ui_constructor a c ro) = []"
  using assms
  by (auto simp: active_statuses_def Ui_constructor_def set_classList_add status_class_def CSS_wrapper_def)

lemma not_Filled_step:
  assumes "\<not> fires op u" and "\<not> names_status op"
    and "Filled \<notin> set (active_statuses u)"
  shows "Filled \<notin> set (active_statuses (ui_step op u))"
proof (cases "sets_status op")
  case True
  then show ?thesis
    by (cases op)
      (simp_all add: Ui_render_def showPreloader_def hidePreloader_def active_statuses_toggleStatus)
next
  case False
  with assms show ?thesis by (simp add: quiet_step)
qed

lemma not_Filled_run:
  "no_fire ops u \<Longrightarrow> list_all (\<lambda>op. \<not> names_status op) ops \<Longrightarrow>
   Filled \<notin> set (active_statuses u) \<Longrightarrow>
   Filled \<notin> set (active_statuses (fold ui_step ops u))"
  by (induction ops arbitrary: u) (simp_all add: not_Filled_step)

lemma fillVideo_new_element:
  "videoContainer (fillVideo url u) ! length (videoContainer u) =
     \<lparr>tagName = (if test_mp4 url then VIDEO else IMG),
      classList = [CSS_videoEl],
      attributes = (if test_mp4 url
                    then [(''src'', url), (''playsinline'', JBool True), (''controls'', JBool True)]
                    else [(''src'', url)]),
      listeners = [if test_mp4 url then ''loadeddata'' else ''load''],
      natural_width = 0, natural_height = 0\<rparr>"
  by (simp add: fillVideo_def Let_def make_dom_def)

lemma starts_with_iff: "starts_with p s \<longleftrightarrow> (\<exists>r. s = p @ r)"
  by (induction p s rule: starts_with.induct) auto

lemma ends_with_iff: "ends_with suf s \<longleftrightarrow> (\<exists>p. s = p @ suf)"
proof -
  have "ends_with suf s \<longleftrightarrow> (\<exists>r. rev s = rev suf @ r)"
    by (simp add: ends_with_def starts_with_iff)
  also have "\<dots> \<longleftrightarrow> (\<exists>p. s = p @ suf)"
  proof
    assume "\<exists>r. rev s = rev suf @ r"
    then obtain r where "rev s = rev suf @ r" ..
    then have "rev (rev s) = rev (rev suf @ r)" by simp
    then have "s = rev r @ suf" by simp
    then show "\<exists>p. s = p @ suf" ..
  next
    assume "\<exists>p. s = p @ suf"
    then obtain p where "s = p @ suf" ..
    then have "rev s = rev suf @ rev p" by simp
    then show "\<exists>r. rev s = rev suf @ r" ..
  qed
  finally show ?thesis .
qed

lemma test_mp4_iff: "test_mp4 url \<longleftrightarrow> (\<exists>p. url = JStr (p @ ''.mp4''))"
  by (cases url) (simp_all add: ends_with_iff)






section \<open>Properties of the controller\<close>

lemma and_url_get_prop: "truthy f \<Longrightarrow> get_prop f ''url'' = Inr (and_url f)"
  by (cases f) (simp_all add: and_url_def)

lemma set_video_simps:
  "data (set_video f t) = (data t)\<lparr>file := (if truthy f then f else JObj [(''url'', JStr [])])\<rparr>"
  "notifier (set_video f t) = notifier t"
  "console (set_video f t) = console t"
  "isCaptionEnabled (set_video f t) = isCaptionEnabled t"
  "ui (set_video f t) = (if truthy (and_url f) then fillVideo (and_url f) (ui t) else ui t)"
  by (simp_all add: set_video_def Let_def)

lemma uploadingFailed_simps:
  "data (uploadingFailed e t) = data t"
  "notifier (uploadingFailed e t) =
     notifier t @ [\<lparr>message = i18n_t (api t) upload_failed_message, style = ''error''\<rparr>]"
  "console (uploadingFailed e t) = console t @ [e]"
  "isCaptionEnabled (uploadingFailed e t) = isCaptionEnabled t"
  "ui (uploadingFailed e t) = hidePreloader (ui t)"
  by (simp_all add: uploadingFailed_def Let_def)

lemma videoContainer_fillVideo:
  "length (videoContainer (fillVideo url u)) = Suc (length (videoContainer u))"
  by (simp add: fillVideo_def Let_def)


lemma fst_save:
  "fst (save t) =
     \<lparr>caption = caption_innerHTML (ui t),
      aspectRatio = js_divide (or_one (videoWidth (videoEl_node (ui t))))
                              (or_one (videoHeight (videoEl_node (ui t)))),
      file = file (data t)\<rparr>"
  by (simp add: save_def Let_def)


lemma save_aspectRatio_positive_iff:
  "positive_number (aspectRatio (fst (save t))) \<longleftrightarrow>
     (case videoEl_node (ui t) of
        None \<Rightarrow> True
      | Some el \<Rightarrow> tagName el = IMG \<or> 0 < natural_width el)"
  by (cases "videoEl_node (ui t)")
    (auto simp: fst_save videoWidth_def videoHeight_def or_one_def js_divide_def
      intro: tag.exhaust)

lemmas example_defs =
  example_api_def example_config_def new_block_def fresh_tool_def uploading_tool_def
  replacing_tool_def escape_text_def innerHTML_set_def dispatchEvent_def media_ready_def
  VideoTool_constructor_def set_data_def set_video_def and_url_def Ui_constructor_def
  render_def Ui_render_def uploadUrl_def showPreloader_def hidePreloader_def toggleStatus_def
  classList_add_def classList_toggle_def status_class_def tune_class_def CSS_wrapper_def
  CSS_videoEl_def applyTune_def fillCaption_def fillVideo_def make_dom_def ends_with_def
  onUpload_def uploadingFailed_def obj_get_def save_def videoEl_node_def videoWidth_def
  videoHeight_def or_one_def js_divide_def active_statuses_def Let_def

section \<open>The claims\<close>

subsection \<open>C1: which responses are accepted\<close>

text \<open>
  C1, as the code has it: a response handed to \<open>onUpload\<close> is accepted exactly when its
  \<open>success\<close> is truthy and its \<open>file\<close> is truthy (any object will do, an empty one or
  one without \<open>url\<close> included). An accepted response replaces the file of the record,
  raises no notification and leaves the status as it is; a media element is appended only
  when \<open>file.url\<close> is truthy.
  Every other response takes the failure path: the record stays as it is, one
  notification is raised and the status is Empty.
\<close>

theorem onUpload_accepts_truthy_success_and_file:
  "(if truthy (obj_get response ''success'') \<and> truthy (obj_get response ''file'')
    then file (data (onUpload response t)) = obj_get response ''file''
       \<and> notifier (onUpload response t) = notifier t
       \<and> active_statuses (ui (onUpload response t)) = active_statuses (ui t)
       \<and> length (videoContainer (ui (onUpload response t))) =
           length (videoContainer (ui t))
             + (if truthy (and_url (obj_get response ''file'')) then 1 else 0)
    else data (onUpload response t) = data t
       \<and> notifier (onUpload response t) =
           notifier t @ [\<lparr>message = i18n_t (api t) upload_failed_message, style = ''error''\<rparr>]
       \<and> active_statuses (ui (onUpload response t)) = [Empty])"
  by (simp add: onUpload_def set_video_simps uploadingFailed_simps videoContainer_fillVideo
      hidePreloader_def active_statuses_toggleStatus active_statuses_fillVideo)

text \<open>
  C1 as stated fails: the response \<open>{success: 1, file: {}}\<close> claims success, its file object
  is empty and has no \<open>url\<close>, and still it is accepted: the file of the record becomes
  \<open>{}\<close>, no notification is raised and the preloader stays.
\<close>

theorem onUpload_accepts_file_without_url:
  "file (data (onUpload [(''success'', JNum (Finite 1)), (''file'', JObj [])] uploading_tool)) = JObj []
   \<and> notifier (onUpload [(''success'', JNum (Finite 1)), (''file'', JObj [])] uploading_tool) = []
   \<and> get_prop (JObj []) ''url'' = Inr JUndefined
   \<and> active_statuses (ui (onUpload [(''success'', JNum (Finite 1)), (''file'', JObj [])] uploading_tool)) = [Uploading]"
  by (simp add: example_defs)

subsection \<open>C2: a valid response replaces the file\<close>

text \<open>
  C2: for a response with \<open>success = 1\<close> and a file object whose \<open>url\<close> is a non-empty
  string, after \<open>onUpload\<close> the file of the record is the file of the response, extra
  fields included; caption and aspect ratio are untouched, nothing is notified, and the
  presentation layer is told to show the url.
\<close>

theorem onUpload_valid_response_replaces_file:
  assumes "obj_get response ''success'' = JNum (Finite 1)"
    and "obj_get response ''file'' = JObj f"
    and "obj_get f ''url'' = JStr u"
    and "u \<noteq> []"
  shows "file (data (onUpload response t)) = obj_get response ''file''
       \<and> caption (data (onUpload response t)) = caption (data t)
       \<and> aspectRatio (data (onUpload response t)) = aspectRatio (data t)
       \<and> notifier (onUpload response t) = notifier t
       \<and> ui (onUpload response t) = fillVideo (JStr u) (ui t)"
  using assms by (simp add: onUpload_def set_video_simps and_url_def)

text \<open>A response with an extra field \<open>size\<close>, arriving while the preloader is shown.\<close>

theorem onUpload_valid_response_replaces_file_witness:
  "obj_get [(''success'', JNum (Finite 1)),
            (''file'', JObj [(''url'', JStr ''https://x/a.mp4''), (''size'', JNum (Finite 91))])]
      ''success'' = JNum (Finite 1)
   \<and> file (data (onUpload
        [(''success'', JNum (Finite 1)),
         (''file'', JObj [(''url'', JStr ''https://x/a.mp4''), (''size'', JNum (Finite 91))])]
        uploading_tool))
      = JObj [(''url'', JStr ''https://x/a.mp4''), (''size'', JNum (Finite 91))]"
  using onUpload_valid_response_replaces_file
    [of "[(''success'', JNum (Finite 1)),
          (''file'', JObj [(''url'', JStr ''https://x/a.mp4''), (''size'', JNum (Finite 91))])]"
        "[(''url'', JStr ''https://x/a.mp4''), (''size'', JNum (Finite 91))]"
        "''https://x/a.mp4''" uploading_tool]
  by (simp add: obj_get_def)

subsection \<open>C3: a failing response\<close>

text \<open>
  C3: for a response with \<open>success = 0\<close> or without \<open>file\<close>, the record is unchanged,
  exactly one notification (the upload-failure message, style \<open>error\<close>) is added, and the
  status is Empty again; no media element is added.
\<close>

theorem onUpload_failing_response:
  assumes "obj_get response ''success'' = JNum (Finite 0) \<or> obj_get response ''file'' = JUndefined"
  shows "data (onUpload response t) = data t
       \<and> notifier (onUpload response t) =
           notifier t @ [\<lparr>message = i18n_t (api t) upload_failed_message, style = ''error''\<rparr>]
       \<and> active_statuses (ui (onUpload response t)) = [Empty]
       \<and> videoContainer (ui (onUpload response t)) = videoContainer (ui t)"
  using assms
  by (auto simp: onUpload_def uploadingFailed_simps hidePreloader_def
      active_statuses_toggleStatus toggleStatus_frame)

text \<open>The response \<open>{success: 0}\<close>, arriving while the preloader is shown.\<close>

theorem onUpload_failing_response_witness:
  "obj_get [(''success'', JNum (Finite 0))] ''success'' = JNum (Finite 0)
   \<and> data (onUpload [(''success'', JNum (Finite 0))] uploading_tool) = data uploading_tool
   \<and> length (notifier (onUpload [(''success'', JNum (Finite 0))] uploading_tool)) =
       length (notifier uploading_tool) + 1
   \<and> active_statuses (ui uploading_tool) = [Uploading]
   \<and> active_statuses (ui (onUpload [(''success'', JNum (Finite 0))] uploading_tool)) = [Empty]"
  using onUpload_failing_response [of "[(''success'', JNum (Finite 0))]" uploading_tool]
  by (simp add: obj_get_def uploading_tool_def uploadUrl_def showPreloader_def
      active_statuses_toggleStatus)

subsection \<open>C4: validate\<close>

text \<open>
  C4, as the code has it: for a record whose \<open>file\<close> is an object, \<open>validate\<close> returns
  true iff \<open>file.url\<close> is truthy: for a string, iff it is not empty; false when \<open>url\<close> is
  absent or \<open>null\<close>. When the \<open>file\<close> field itself is missing or \<open>null\<close>, the member
  access \<open>savedData.file.url\<close> throws a TypeError: \<open>validate\<close> fails and returns nothing.
\<close>

theorem validate_by_cases:
  "validate \<lparr>caption = c, aspectRatio = a, file = JObj kvs\<rparr> =
      Inr (case obj_get kvs ''url'' of
             JStr s \<Rightarrow> s \<noteq> []
           | JUndefined \<Rightarrow> False
           | JNull \<Rightarrow> False
           | v \<Rightarrow> truthy v)
   \<and> validate \<lparr>caption = c, aspectRatio = a, file = JUndefined\<rparr> = Inl TypeError
   \<and> validate \<lparr>caption = c, aspectRatio = a, file = JNull\<rparr> = Inl TypeError"
  by (simp add: validate_def split: jsval.splits)

text \<open>
  C4 as stated fails on a record without \<open>file\<close>, and on one whose \<open>file\<close> is \<open>null\<close>:
  the call throws, it does not return false. And a \<open>url\<close> that is truthy without being
  a string, as \<open>true\<close>, is accepted.
\<close>

theorem validate_throws_without_file:
  "validate \<lparr>caption = ''hi'', aspectRatio = Finite 1, file = JUndefined\<rparr> = Inl TypeError
   \<and> validate \<lparr>caption = ''hi'', aspectRatio = Finite 1, file = JUndefined\<rparr> \<noteq> Inr False
   \<and> validate \<lparr>caption = ''hi'', aspectRatio = Finite 1, file = JNull\<rparr> \<noteq> Inr False
   \<and> validate \<lparr>caption = ''hi'', aspectRatio = Finite 1, file = JObj [(''url'', JBool True)]\<rparr> = Inr True"
  by (simp add: validate_def obj_get_def)

subsection \<open>C5: the preloader, and Filled only through a media event\<close>

text \<open>
  C5, as the code has it: whatever the status was, \<open>showPreloader\<close> makes it Uploading.
  \<open>fillVideo(url)\<close> leaves the status as it is and makes the new element the current one.
  After it, the status becomes Filled exactly through a media event that fires: the event
  that the new element listens to (\<open>loadeddata\<close> for a video element, \<open>load\<close> for an
  image), or the event of an element that an earlier \<open>fillVideo\<close> has appended, which
  stays in the container with its listener. An event that does not fire and the calls of
  the controller never make the status Filled: in a run after \<open>fillVideo\<close> in which no
  media event fires (and no tune is named like a status), a status that was not Filled
  stays different from Filled.
\<close>

theorem showPreloader_and_fillVideo_status:
  "active_statuses (showPreloader u) = [Uploading]
   \<and> active_statuses (fillVideo url u) = active_statuses u
   \<and> videoEl (fillVideo url u) = Some (length (videoContainer u))
   \<and> active_statuses (dispatchEvent (length (videoContainer u)) ev (fillVideo url u)) =
       (if ev = (if test_mp4 url then ''loadeddata'' else ''load'')
        then [Filled] else active_statuses u)
   \<and> (fires op v \<longrightarrow> active_statuses (ui_step op v) = [Filled])
   \<and> (no_fire ops (fillVideo url u) \<and> list_all (\<lambda>op. \<not> names_status op) ops
        \<and> Filled \<notin> set (active_statuses u)
      \<longrightarrow> Filled \<notin> set (active_statuses (fold ui_step ops (fillVideo url u))))"
proof -
  have "videoEl (fillVideo url u) = Some (length (videoContainer u))"
    by (simp add: fillVideo_def Let_def)
  moreover have "Filled \<notin> set (active_statuses (fold ui_step ops (fillVideo url u)))"
    if "no_fire ops (fillVideo url u)" and "list_all (\<lambda>op. \<not> names_status op) ops"
      and "Filled \<notin> set (active_statuses u)"
    using that by (intro not_Filled_run) (simp_all add: active_statuses_fillVideo)
  ultimately show ?thesis
    by (simp add: showPreloader_def active_statuses_toggleStatus active_statuses_fillVideo
        active_statuses_dispatchEvent videoContainer_fillVideo fillVideo_new_element fires_step)
qed

text \<open>
  An \<open>.mp4\<close> url filled in while the preloader is shown: the status stays Uploading
  through further calls, through a \<open>load\<close> event on the new element and through an event
  on an element that does not exist; \<open>loadeddata\<close> on the new element makes it Filled.
\<close>

theorem showPreloader_and_fillVideo_status_witness:
  "no_fire [FillCaption ''hi'', DispatchEvent 0 ''load'', MediaReady 7 640 360, ApplyTune ''caption'' True]
      (fillVideo (JStr ''https://x/a.mp4'') (ui uploading_tool))
   \<and> list_all (\<lambda>op. \<not> names_status op)
        [FillCaption ''hi'', DispatchEvent 0 ''load'', MediaReady 7 640 360, ApplyTune ''caption'' True]
   \<and> Filled \<notin> set (active_statuses (ui uploading_tool))
   \<and> Filled \<notin> set (active_statuses
        (fold ui_step
          [FillCaption ''hi'', DispatchEvent 0 ''load'', MediaReady 7 640 360, ApplyTune ''caption'' True]
          (fillVideo (JStr ''https://x/a.mp4'') (ui uploading_tool))))
   \<and> fires (MediaReady 0 640 360) (fillVideo (JStr ''https://x/a.mp4'') (ui uploading_tool))
   \<and> active_statuses (ui_step (MediaReady 0 640 360)
        (fillVideo (JStr ''https://x/a.mp4'') (ui uploading_tool))) = [Filled]
   \<and> active_statuses (dispatchEvent (length (videoContainer (ui uploading_tool))) ''loadeddata''
        (fillVideo (JStr ''https://x/a.mp4'') (ui uploading_tool))) = [Filled]"
  using showPreloader_and_fillVideo_status
    [of "ui uploading_tool" "JStr ''https://x/a.mp4''" "''loadeddata''"
        "MediaReady 0 640 360" "fillVideo (JStr ''https://x/a.mp4'') (ui uploading_tool)"
        "[FillCaption ''hi'', DispatchEvent 0 ''load'', MediaReady 7 640 360, ApplyTune ''caption'' True]"]
  by (simp add: example_defs status_names_def)

text \<open>
  C5 as stated fails when an earlier element is still loading: \<open>fillVideo\<close> has made the
  video element (index 1) the current one, its \<open>loadeddata\<close> has not been dispatched and
  its dimensions are still 0, and the \<open>load\<close> event of the image element (index 0) makes
  the status Filled.
\<close>

theorem Filled_before_the_new_element_loads:
  "videoEl (ui replacing_tool) = Some 1
   \<and> listeners (videoContainer (ui replacing_tool) ! 1) = [''loadeddata'']
   \<and> active_statuses (ui replacing_tool) = [Uploading]
   \<and> active_statuses (dispatchEvent 0 ''load'' (ui replacing_tool)) = [Filled]
   \<and> natural_width (videoContainer (dispatchEvent 0 ''load'' (ui replacing_tool)) ! 1) = 0"
  by (simp add: example_defs)

subsection \<open>C6: the kind of the media element\<close>

text \<open>
  C6, as the code has it: \<open>fillVideo(url)\<close> creates a video element (with \<open>playsinline\<close>
  and \<open>controls\<close>, listening to \<open>loadeddata\<close>) exactly when the url ends in \<open>.mp4\<close>;
  for every other source it creates an image element listening to \<open>load\<close>.
\<close>

theorem fillVideo_element_kind:
  "videoEl_node (fillVideo url u) =
     Some (if \<exists>p. url = JStr (p @ ''.mp4'')
           then \<lparr>tagName = VIDEO, classList = [''video-tool__video-picture''],
                 attributes = [(''src'', url), (''playsinline'', JBool True), (''controls'', JBool True)],
                 listeners = [''loadeddata''], natural_width = 0, natural_height = 0\<rparr>
           else \<lparr>tagName = IMG, classList = [''video-tool__video-picture''],
                 attributes = [(''src'', url)],
                 listeners = [''load''], natural_width = 0, natural_height = 0\<rparr>)"
  unfolding test_mp4_iff [symmetric]
  by (simp add: videoEl_node_def fillVideo_def Let_def make_dom_def CSS_videoEl_def)

text \<open>
  C6 as stated fails on a \<open>.webm\<close> url, an extension that the paste pattern of
  \<open>pasteConfig\<close> takes for a video: the element is an image waiting for \<open>load\<close>. So is
  the element of an \<open>.mp4\<close> url followed by a query string, which the paste pattern
  accepts as well.
\<close>

theorem fillVideo_webm_is_image:
  "tagName (the (videoEl_node (fillVideo (JStr ''https://x/a.webm'') (ui uploading_tool)))) = IMG
   \<and> listeners (the (videoEl_node (fillVideo (JStr ''https://x/a.webm'') (ui uploading_tool)))) = [''load'']
   \<and> tagName (the (videoEl_node (fillVideo (JStr ''https://x/a.mp4?t=1'') (ui uploading_tool)))) = IMG"
  by (simp add: videoEl_node_def fillVideo_def Let_def make_dom_def ends_with_def)

subsection \<open>C7: the aspect ratio that save returns\<close>

text \<open>
  C7 says that \<open>save\<close> returns a positive aspect ratio, 1 when the natural dimensions of
  the media are not available. The code does so when there is no media element and when
  the element is an image (\<open>save_aspectRatio_positive_iff\<close>). For a video element that has
  not loaded yet, \<open>videoWidth\<close> and \<open>videoHeight\<close> are 0, not \<open>undefined\<close>: the operator
  \<open>??\<close> keeps them, and the quotient is \<open>NaN\<close>. Here the controller is built from a saved
  block with an \<open>.mp4\<close> url and \<open>save\<close> is called before the video has loaded.
\<close>

theorem save_before_video_loaded_gives_NaN:
  "aspectRatio (fst (save (VideoTool_constructor
      \<lparr>saved_file = JObj [(''url'', JStr ''https://x/a.mp4'')], saved_caption = None,
       saved_aspectRatio = None\<rparr> example_config example_api False))) = NaN
   \<and> \<not> positive_number (aspectRatio (fst (save (VideoTool_constructor
      \<lparr>saved_file = JObj [(''url'', JStr ''https://x/a.mp4'')], saved_caption = None,
       saved_aspectRatio = None\<rparr> example_config example_api False))))"
  by (simp add: example_defs)

subsection \<open>C8: one status at a time\<close>

text \<open>
  C8, as the code has it: provided that the block class of the host is not one of the
  three status classes and that no tune is named like a status, at every point of the
  widget's lifetime at most one status is active. None is active from construction until
  the first step that sets a status: a call of \<open>render\<close>, \<open>showPreloader\<close> or
  \<open>hidePreloader\<close>, or a media event that fires (the constructor of the controller may
  already have appended an element, whose event can fire before \<open>render\<close>). From that
  step on exactly one status is active, after every further call and event.
\<close>

theorem status_count_in_lifetime:
  assumes "styles_block a \<notin> set (map status_class [Empty, Uploading, Filled])"
    and "list_all (\<lambda>op. \<not> names_status op) ops"
  shows "length (active_statuses (fold ui_step ops (Ui_constructor a c ro))) =
           (if quiet ops (Ui_constructor a c ro) then 0 else 1)"
  using status_count_run [OF assms(2), of "Ui_constructor a c ro"]
    active_statuses_constructor [OF assms(1), of c ro]
  by (simp split: if_splits)

text \<open>
  Three runs from construction: the calls of the controller's constructor alone; the same
  calls followed by the load event of the element, before any \<open>render\<close>; and a block that
  is opened, rendered and used for an upload that succeeds and loads.
\<close>

theorem status_count_in_lifetime_witness:
  "styles_block example_api \<notin> set (map status_class [Empty, Uploading, Filled])
   \<and> list_all (\<lambda>op. \<not> names_status op)
        [FillVideo (JStr ''https://x/a.png''), FillCaption ''hi'', ApplyTune ''caption'' True]
   \<and> length (active_statuses
        (fold ui_step [FillVideo (JStr ''https://x/a.png''), FillCaption ''hi'', ApplyTune ''caption'' True]
          (Ui_constructor example_api \<lparr>captionPlaceholder = ''Caption'', features_caption = CaptionUnset\<rparr> False))) = 0
   \<and> length (active_statuses
        (fold ui_step [FillVideo (JStr ''https://x/a.png''), FillCaption ''hi'', MediaReady 0 640 360]
          (Ui_constructor example_api \<lparr>captionPlaceholder = ''Caption'', features_caption = CaptionUnset\<rparr> False))) = 1
   \<and> length (active_statuses
        (fold ui_step
          [FillVideo (JStr ''https://x/a.png''), FillCaption ''hi'', ApplyTune ''caption'' True, Render,
           ShowPreloader, FillVideo (JStr ''https://x/b.mp4''), MediaReady 1 640 360]
          (Ui_constructor example_api \<lparr>captionPlaceholder = ''Caption'', features_caption = CaptionUnset\<rparr> False))) = 1"
  using status_count_in_lifetime
    [of example_api
        "[FillVideo (JStr ''https://x/a.png''), FillCaption ''hi'', ApplyTune ''caption'' True]"
        "\<lparr>captionPlaceholder = ''Caption'', features_caption = CaptionUnset\<rparr>" False]
    status_count_in_lifetime
    [of example_api
        "[FillVideo (JStr ''https://x/a.png''), FillCaption ''hi'', MediaReady 0 640 360]"
        "\<lparr>captionPlaceholder = ''Caption'', features_caption = CaptionUnset\<rparr>" False]
    status_count_in_lifetime
    [of example_api
        "[FillVideo (JStr ''https://x/a.png''), FillCaption ''hi'', ApplyTune ''caption'' True, Render,
          ShowPreloader, FillVideo (JStr ''https://x/b.mp4''), MediaReady 1 640 360]"
        "\<lparr>captionPlaceholder = ''Caption'', features_caption = CaptionUnset\<rparr>" False]
  by (simp add: example_defs status_names_def)

text \<open>
  C8 as stated fails right after construction, before \<open>render\<close>: none of the three
  status classes is on the wrapper.
\<close>

theorem no_status_after_construction:
  "active_statuses
     (Ui_constructor example_api \<lparr>captionPlaceholder = ''Caption'', features_caption = CaptionUnset\<rparr> False) = []
   \<and> wrapper
     (Ui_constructor example_api \<lparr>captionPlaceholder = ''Caption'', features_caption = CaptionUnset\<rparr> False)
     = [''cdx-block'', ''video-tool'']"
  by (simp add: example_defs)

subsection \<open>C9: toggling tunes\<close>

text \<open>
  C9: \<open>tuneToggled('caption', false)\<close> empties the caption of the record and of the
  caption node (and takes the tune class off the wrapper), also when it is reached from
  the settings menu with the caption enabled. With any other tune name, \<open>tuneToggled\<close>
  throws an \<open>Error\<close>, from the menu too.
\<close>

theorem tuneToggled_caption_off_and_unknown_tune:
  assumes "tuneName \<noteq> ''caption''"
  shows "(case tuneToggled ''caption'' False t of
            Inl e \<Rightarrow> False
          | Inr t' \<Rightarrow> caption (data t') = [] \<and> caption_innerHTML (ui t') = []
                    \<and> file (data t') = file (data t)
                    \<and> aspectRatio (data t') = aspectRatio (data t)
                    \<and> tune_class ''caption'' \<notin> set (wrapper (ui t')))
       \<and> (case onActivate ''caption'' (t\<lparr>isCaptionEnabled := Some True\<rparr>) of
            Inl e \<Rightarrow> False
          | Inr t' \<Rightarrow> caption (data t') = [] \<and> caption_innerHTML (ui t') = []
                    \<and> isCaptionEnabled t' = Some False)
       \<and> tuneToggled tuneName state t =
            Inl (Error (''There is no tune with name '' @ tuneName @ '' in Video Tool''))
       \<and> onActivate tuneName t =
            Inl (Error (''There is no tune with name '' @ tuneName @ '' in Video Tool''))"
  using assms
  by (simp add: tuneToggled_def onActivate_def isActive_def Let_def applyTune_def fillCaption_def
      innerHTML_set_def set_classList_toggle)

text \<open>The tune name \<open>aspectRatio\<close>, on a freshly rendered widget.\<close>

theorem tuneToggled_caption_off_and_unknown_tune_witness:
  "''aspectRatio'' \<noteq> ''caption''
   \<and> tuneToggled ''aspectRatio'' True fresh_tool =
        Inl (Error ''There is no tune with name aspectRatio in Video Tool'')
   \<and> (case tuneToggled ''caption'' False fresh_tool of
          Inl e \<Rightarrow> False
        | Inr t' \<Rightarrow> caption (data t') = [] \<and> caption_innerHTML (ui t') = [])"
  using tuneToggled_caption_off_and_unknown_tune [of "''aspectRatio''" fresh_tool True]
  by (simp split: sum.splits)

subsection \<open>C10: saving right after construction\<close>




end
